theory Spec2Isabelle
  imports Complex_Main
begin

section \<open>FitCast: the decision logic of app.py\<close>

text \<open>
  The four helper functions of \<^verbatim>\<open>src/app.py\<close> (\<^verbatim>\<open>get_mock_weather\<close>,
  \<^verbatim>\<open>adjust_for_comfort\<close>, \<^verbatim>\<open>generate_outfit\<close>, \<^verbatim>\<open>shoe_suggestion\<close>) and the
  call chain of the Outfit Planner page, as HOL functions.

  \<^item> Python's unbounded integers are \<open>int\<close>; strings are \<open>string\<close>.
  \<^item> A dict literal is a map built by \<open>map_of\<close> from its items (no key occurs twice in
    any of the three tables, so the order of the items is immaterial).
  \<^item> Subscripting a dict with a missing key raises \<^verbatim>\<open>KeyError(key)\<close>; a function that
    can raise returns \<open>error + 'a\<close>, with \<open>Inl\<close> for the exception.
  \<^item> The true division \<^verbatim>\<open>(low + high) / 2\<close> yields a float. Every value that occurs is an
    integer or a half of magnitude far below \<open>2 ^ 53\<close>, which binary floating point
    represents and adds exactly, so the float is modelled by the rational it denotes.
  \<^item> The two draws from \<^verbatim>\<open>np.random\<close> are arguments of the model: the integer returned by
    \<^verbatim>\<open>np.random.randint(-2, 3)\<close>, which lies in the half-open range \<open>{-2..<3}\<close>, and the
    index at which \<^verbatim>\<open>np.random.choice\<close> reads its three-element list.
\<close>

subsection \<open>Exceptions and dict subscripting\<close>

datatype error = KeyError string

definition subscript :: "(string \<rightharpoonup> 'v) \<Rightarrow> string \<Rightarrow> error + 'v" where
  "subscript d key = (case d key of None \<Rightarrow> Inl (KeyError key) | Some v \<Rightarrow> Inr v)"

text \<open>
  The name of an exception's class, \<^verbatim>\<open>type(e).__name__\<close>. The source defines no exception
  class and has no \<^verbatim>\<open>raise\<close> statement: the only exceptions are those of the subscripts.
\<close>

fun exception_class :: "error \<Rightarrow> string" where
  "exception_class (KeyError key) = ''KeyError''"

subsection \<open>The option lists of the sidebar widgets (lines 69--93)\<close>

definition cities :: "string list" where
  "cities = [''Miami'', ''New York'', ''Chicago'', ''Los Angeles'']"

definition styles :: "string list" where
  "styles = [''Cozy'', ''Casual'', ''Dressy'', ''Sporty'']"

definition comfort_levels :: "string list" where
  "comfort_levels =
     [''I am a furnace'', ''I run warm'', ''I am normal'', ''I run cold'',
      ''I am freezing all the time'']"

subsection \<open>get_mock_weather (lines 111--131)\<close>

record weather =
  low :: int
  high :: int
  feels_like :: int
  rain_chance :: string

definition base :: "string \<rightharpoonup> int \<times> int" where
  "base = map_of
     [(''Miami'', (75, 85)),
      (''New York'', (60, 72)),
      (''Chicago'', (55, 68)),
      (''Los Angeles'', (65, 78))]"

text \<open>\<^verbatim>\<open>int(x)\<close> on a float truncates towards zero.\<close>

definition py_int :: "rat \<Rightarrow> int" where
  "py_int x = (if 0 \<le> x then \<lfloor>x\<rfloor> else \<lceil>x\<rceil>)"

definition rain_levels :: "string list" where
  "rain_levels = [''Low'', ''Medium'', ''High'']"

text \<open>\<^verbatim>\<open>np.random.choice(xs)\<close> returns the element of \<open>xs\<close> at the index it draws.\<close>

definition np_random_choice :: "'a list \<Rightarrow> nat \<Rightarrow> 'a" where
  "np_random_choice xs k = xs ! k"

text \<open>
  \<open>randint_draw\<close> is the value of \<^verbatim>\<open>np.random.randint(-2, 3)\<close> and \<open>choice_draw\<close> the
  index drawn by \<^verbatim>\<open>np.random.choice\<close>. The lookup \<^verbatim>\<open>base[city]\<close> comes first: with an
  unknown city the function raises before either draw is made.
\<close>

definition get_mock_weather :: "string \<Rightarrow> int \<Rightarrow> nat \<Rightarrow> error + weather" where
  "get_mock_weather city randint_draw choice_draw =
     (case subscript base city of
        Inl e \<Rightarrow> Inl e
      | Inr (l, h) \<Rightarrow>
          Inr \<lparr>low = l, high = h,
               feels_like = py_int (of_int (l + h) / 2 + of_int randint_draw),
               rain_chance = np_random_choice rain_levels choice_draw\<rparr>)"

subsection \<open>adjust_for_comfort (lines 134--146)\<close>

definition adjustments :: "string \<rightharpoonup> int" where
  "adjustments = map_of
     [(''I am a furnace'', 6),
      (''I run warm'', 3),
      (''I am normal'', 0),
      (''I run cold'', -3),
      (''I am freezing all the time'', -6)]"

definition adjust_for_comfort :: "int \<Rightarrow> string \<Rightarrow> error + int" where
  "adjust_for_comfort feels comfort =
     (case subscript adjustments comfort of
        Inl e \<Rightarrow> Inl e
      | Inr a \<Rightarrow> Inr (feels + a))"

subsection \<open>generate_outfit (lines 149--173)\<close>

definition bottoms :: "string \<rightharpoonup> string" where
  "bottoms = map_of
     [(''Cozy'', ''soft pants or leggings''),
      (''Casual'', ''jeans''),
      (''Dressy'', ''tailored pants or skirt''),
      (''Sporty'', ''athletic bottoms'')]"

text \<open>The band is chosen first; the lookup \<^verbatim>\<open>bottoms[style]\<close> is in the return statement.\<close>

definition generate_outfit :: "int \<Rightarrow> string \<Rightarrow> error + (string \<times> string \<times> string)" where
  "generate_outfit adjusted_temp style =
     (let (top, outer) =
            (if adjusted_temp \<ge> 80 then (''light tank or breathable tee'', ''no jacket needed'')
             else if adjusted_temp \<ge> 70 then (''short-sleeve shirt'', ''optional light layer'')
             else if adjusted_temp \<ge> 60 then (''long-sleeve top'', ''light jacket or cardigan'')
             else (''warm sweater'', ''jacket or coat''))
      in case subscript bottoms style of
           Inl e \<Rightarrow> Inl e
         | Inr bottom \<Rightarrow> Inr (top, outer, bottom))"

subsection \<open>shoe_suggestion (lines 176--184)\<close>

text \<open>No table is read here, so nothing can raise: the result is a plain string.\<close>

definition shoe_suggestion :: "int \<Rightarrow> string \<Rightarrow> string" where
  "shoe_suggestion adjusted_temp rain =
     (if rain = ''High'' then ''water-resistant shoes''
      else if adjusted_temp \<ge> 75 then ''sandals or breathable sneakers''
      else if adjusted_temp \<ge> 60 then ''sneakers or flats''
      else ''closed-toe shoes or boots'')"

subsection \<open>The Outfit Planner page (lines 214--222 and 241--242)\<close>

text \<open>
  The page calls the helpers in sequence; an exception of one call ends the chain. The
  result holds the weather reading, the adjusted temperature, the outfit and, when the
  checkbox is ticked, the shoes.
\<close>

definition outfit_planner ::
  "string \<Rightarrow> string \<Rightarrow> string \<Rightarrow> bool \<Rightarrow> int \<Rightarrow> nat
     \<Rightarrow> error + (weather \<times> int \<times> (string \<times> string \<times> string) \<times> string option)" where
  "outfit_planner city comfort_level style show_shoes randint_draw choice_draw =
     (case get_mock_weather city randint_draw choice_draw of
        Inl e \<Rightarrow> Inl e
      | Inr w \<Rightarrow>
         (case adjust_for_comfort (feels_like w) comfort_level of
            Inl e \<Rightarrow> Inl e
          | Inr adjusted_temp \<Rightarrow>
             (case generate_outfit adjusted_temp style of
                Inl e \<Rightarrow> Inl e
              | Inr outfit \<Rightarrow>
                  Inr (w, adjusted_temp, outfit,
                       if show_shoes
                       then Some (shoe_suggestion adjusted_temp (rain_chance w))
                       else None))))"

subsection \<open>The spec's formulas, for comparison with the code\<close>

text \<open>
  The spec's formula for the perceived temperature: the midpoint rounded to the nearest
  integer, plus the perturbation.
\<close>

definition spec_feels_like :: "int \<Rightarrow> int \<Rightarrow> int \<Rightarrow> int" where
  "spec_feels_like l h p = round (of_int (l + h) / 2 :: rat) + p"

text \<open>
  The spec's range for the perceived temperature of a reading: within two degrees of the
  midpoint \<open>(low + high) / 2\<close>, both ends included.
\<close>

definition spec_feels_like_in_range :: "weather \<Rightarrow> bool" where
  "spec_feels_like_in_range w \<longleftrightarrow>
     of_int (low w + high w) / 2 - 2 \<le> (of_int (feels_like w) :: rat) \<and>
     (of_int (feels_like w) :: rat) \<le> of_int (low w + high w) / 2 + 2"

text \<open>
  The spec's error clause: a call raises the error of a given name when it ends in an
  exception whose class has that name.
\<close>

definition spec_raises_named :: "string \<Rightarrow> error + 'a \<Rightarrow> bool" where
  "spec_raises_named name r = (case r of Inl e \<Rightarrow> exception_class e = name | Inr v \<Rightarrow> False)"

section \<open>Facts about the tables\<close>

lemma base_table:
  "base ''Miami'' = Some (75, 85)" "base ''New York'' = Some (60, 72)"
  "base ''Chicago'' = Some (55, 68)" "base ''Los Angeles'' = Some (65, 78)"
  by (simp_all add: base_def)

lemma base_unknown: "city \<notin> set cities \<Longrightarrow> base city = None"
  by (simp add: base_def cities_def)

lemma adjustments_unknown: "comfort \<notin> set comfort_levels \<Longrightarrow> adjustments comfort = None"
  by (simp add: adjustments_def comfort_levels_def)

lemma bottoms_unknown: "style \<notin> set styles \<Longrightarrow> bottoms style = None"
  by (simp add: bottoms_def styles_def)

lemma bottoms_table:
  "bottoms ''Cozy'' = Some ''soft pants or leggings''" "bottoms ''Casual'' = Some ''jeans''"
  "bottoms ''Dressy'' = Some ''tailored pants or skirt''"
  "bottoms ''Sporty'' = Some ''athletic bottoms''"
  by (simp_all add: bottoms_def)

lemma rain_levels_choice:
  "k < length rain_levels \<Longrightarrow> np_random_choice rain_levels k \<in> {''Low'', ''Medium'', ''High''}"
proof -
  assume "k < length rain_levels"
  then have "k = 0 \<or> k = 1 \<or> k = 2" by (auto simp: rain_levels_def)
  then show ?thesis by (auto simp: rain_levels_def np_random_choice_def)
qed

section \<open>The mock weather generator\<close>

text \<open>
  Truncating a non-negative half-integer plus an integer: the half is dropped, whatever
  the integer added.
\<close>

lemma py_int_half: "0 \<le> a + 2 * p \<Longrightarrow> py_int (of_int a / 2 + of_int p) = a div 2 + p"
proof -
  assume h: "0 \<le> a + 2 * p"
  have "(of_int a / 2 + of_int p :: rat) = of_int (a + 2 * p) / 2" by (simp add: field_simps)
  moreover have "(0::rat) \<le> of_int (a + 2 * p) / 2" using h by simp
  ultimately show ?thesis
    unfolding py_int_def
    by (simp add: floor_divide_of_int_eq[of _ 2, simplified] del: of_int_add of_int_mult)
qed

lemma get_mock_weather_known:
  assumes "base city = Some (l, h)" and "0 \<le> l + h + 2 * p"
  shows "get_mock_weather city p k =
           Inr \<lparr>low = l, high = h, feels_like = (l + h) div 2 + p,
                rain_chance = np_random_choice rain_levels k\<rparr>"
  using assms py_int_half[of "l + h" p] by (simp add: get_mock_weather_def subscript_def)

text \<open>
  C3, as stated, fails. For Chicago the midpoint is \<open>61.5\<close>; the spec's
  \<open>round((low+high)/2) + p\<close> gives \<open>62\<close> at \<open>p = 0\<close>, while the code computes
  \<^verbatim>\<open>int(61.5 + 0) = 61\<close>: \<^verbatim>\<open>int\<close> truncates, it does not round to nearest.
\<close>

theorem get_mock_weather_round_counterexample:
  "get_mock_weather ''Chicago'' 0 0 =
     Inr \<lparr>low = 55, high = 68, feels_like = 61, rain_chance = ''Low''\<rparr> \<and>
   spec_feels_like 55 68 0 = 62"
proof -
  have "round ((123::rat) / 2) = 62"
    unfolding round_def by (simp add: floor_divide_of_int_eq[of 124 2, simplified])
  then show ?thesis
    by (simp add: get_mock_weather_known[OF base_table(3)] np_random_choice_def
        rain_levels_def spec_feels_like_def)
qed

text \<open>
  C3, amended: for every city of the four-city list, every perturbation \<open>p\<close> in
  \<open>{-2, -1, 0, 1, 2}\<close> and every index drawn by the choice, \<open>get_mock_weather\<close> looks up
  \<open>(low, high)\<close> in the fixed table (Miami (75,85), New York (60,72), Chicago (55,68),
  Los Angeles (65,78)) and returns \<open>feels_like = int((low + high) / 2 + p)\<close>, which is the
  midpoint rounded down plus \<open>p\<close>, that is \<open>(low + high) div 2 + p\<close>; the rain chance is
  one of Low, Medium, High.
\<close>

theorem get_mock_weather_feels_like:
  assumes "city \<in> set cities" and "p \<in> {-2..<3}" and "k < length rain_levels"
  shows "map base cities = [Some (75, 85), Some (60, 72), Some (55, 68), Some (65, 78)] \<and>
         (\<exists>l h. base city = Some (l, h) \<and>
            get_mock_weather city p k =
              Inr \<lparr>low = l, high = h, feels_like = (l + h) div 2 + p,
                   rain_chance = np_random_choice rain_levels k\<rparr>) \<and>
         np_random_choice rain_levels k \<in> {''Low'', ''Medium'', ''High''}"
proof -
  have t: "map base cities = [Some (75, 85), Some (60, 72), Some (55, 68), Some (65, 78)]"
    by (simp add: cities_def base_table)
  from assms(1) obtain l h where b: "base city = Some (l, h)" and r: "0 \<le> l + h - 4"
    by (auto simp: cities_def base_table)
  from r assms(2) have "0 \<le> l + h + 2 * p" by simp
  from get_mock_weather_known[OF b this] b t rain_levels_choice[OF assms(3)]
  show ?thesis by blast
qed

theorem get_mock_weather_feels_like_witness:
  "''Los Angeles'' \<in> set cities \<and> (-1::int) \<in> {-2..<3} \<and> (1::nat) < length rain_levels \<and>
   get_mock_weather ''Los Angeles'' (-1) 1 =
     Inr \<lparr>low = 65, high = 78, feels_like = 70, rain_chance = ''Medium''\<rparr>"
  using get_mock_weather_feels_like[of "''Los Angeles''" "-1" 1]
  by (simp add: cities_def rain_levels_def base_table np_random_choice_def)

text \<open>
  C4, as stated, fails. For Chicago the midpoint is \<open>61.5\<close>, so the stated range is
  \<open>[59.5, 63.5]\<close>; with the draw \<open>-2\<close> the code returns \<^verbatim>\<open>int(59.5) = 59\<close>, below the
  range. Rounding the midpoint to the nearest integer first does not help: the range is
  then \<open>[60, 64]\<close>.
\<close>

theorem feels_like_range_counterexample:
  "get_mock_weather ''Chicago'' (-2) 0 =
     Inr \<lparr>low = 55, high = 68, feels_like = 59, rain_chance = ''Low''\<rparr> \<and>
   \<not> spec_feels_like_in_range \<lparr>low = 55, high = 68, feels_like = 59, rain_chance = ''Low''\<rparr> \<and>
   \<not> round (of_int (55 + 68) / 2 :: rat) - 2 \<le> 59"
proof -
  have "round ((123::rat) / 2) = 62"
    unfolding round_def by (simp add: floor_divide_of_int_eq[of 124 2, simplified])
  then show ?thesis
    by (simp add: get_mock_weather_known[OF base_table(3)] np_random_choice_def
        rain_levels_def spec_feels_like_in_range_def)
qed

text \<open>
  C4, amended: for every city of the four-city list and every outcome of the two draws,
  the reading returned by \<open>get_mock_weather\<close> has \<open>low\<close> and \<open>high\<close> equal to the city's
  table entry, \<open>low \<le> high\<close>, and \<open>feels_like\<close> within two degrees of the midpoint
  rounded down to an integer: \<open>(low + high) div 2 - 2 \<le> feels_like \<le> (low + high) div 2 + 2\<close>.
  Against the exact midpoint the lower end is half a degree further out:
  \<open>(low + high) / 2 - 2.5 \<le> feels_like \<le> (low + high) / 2 + 2\<close>.
\<close>

theorem feels_like_within_floor_midpoint:
  assumes "city \<in> set cities" and "p \<in> {-2..<3}" and "k < length rain_levels"
  shows "\<exists>w. get_mock_weather city p k = Inr w \<and>
           base city = Some (low w, high w) \<and> low w \<le> high w \<and>
           (low w + high w) div 2 - 2 \<le> feels_like w \<and>
           feels_like w \<le> (low w + high w) div 2 + 2 \<and>
           of_int (low w + high w) / 2 - 5 / 2 \<le> (of_int (feels_like w) :: rat) \<and>
           (of_int (feels_like w) :: rat) \<le> of_int (low w + high w) / 2 + 2"
proof -
  from assms(1) obtain l h where b: "base city = Some (l, h)" and r: "0 \<le> l + h - 4"
    and o: "l \<le> h"
    by (auto simp: cities_def base_table)
  from r assms(2) have "0 \<le> l + h + 2 * p" by simp
  note g = get_mock_weather_known[OF b this, of k]
  have d: "2 * ((l + h) div 2) \<le> l + h" "l + h \<le> 2 * ((l + h) div 2) + 1" by presburger+
  have q: "(of_int (l + h) :: rat) / 2 - 5 / 2 \<le> of_int ((l + h) div 2 + p)"
  proof -
    have "l + h - 5 \<le> 2 * ((l + h) div 2 + p)" using d assms(2) by simp
    then have "(of_int (l + h - 5) :: rat) \<le> of_int (2 * ((l + h) div 2 + p))"
      by (simp only: of_int_le_iff)
    then show ?thesis by (simp add: field_simps)
  qed
  have q2: "(of_int ((l + h) div 2 + p) :: rat) \<le> of_int (l + h) / 2 + 2"
  proof -
    have "2 * ((l + h) div 2 + p) \<le> l + h + 4" using d assms(2) by simp
    then have "(of_int (2 * ((l + h) div 2 + p)) :: rat) \<le> of_int (l + h + 4)"
      by (simp only: of_int_le_iff)
    then show ?thesis by (simp add: field_simps)
  qed
  show ?thesis
    apply (rule exI[of _ "\<lparr>low = l, high = h, feels_like = (l + h) div 2 + p,
                rain_chance = np_random_choice rain_levels k\<rparr>"])
    using g b o assms(2) q q2 by simp
qed

theorem feels_like_within_floor_midpoint_witness:
  "''Chicago'' \<in> set cities \<and> (-2::int) \<in> {-2..<3} \<and> (2::nat) < length rain_levels \<and>
   get_mock_weather ''Chicago'' (-2) 2 =
     Inr \<lparr>low = 55, high = 68, feels_like = 59, rain_chance = ''High''\<rparr> \<and>
   (55 + 68) div 2 - 2 \<le> (59::int) \<and> (59::int) \<le> (55 + 68) div 2 + 2"
  using feels_like_within_floor_midpoint[of "''Chicago''" "-2" 2]
  by (simp add: cities_def rain_levels_def get_mock_weather_known[OF base_table(3)]
      np_random_choice_def)

section \<open>Missing keys\<close>

text \<open>
  C5, as stated, fails. The claim gives each function an error of its own name. The
  source has no such classes: each lookup is a bare subscript, so an unknown key raises
  the built-in \<^verbatim>\<open>KeyError\<close> in all three functions, and for the same key the three raise
  the same error.
\<close>

theorem named_errors_counterexample:
  "get_mock_weather ''Boston'' 1 0 = Inl (KeyError ''Boston'') \<and>
   adjust_for_comfort 70 ''Boston'' = Inl (KeyError ''Boston'') \<and>
   generate_outfit 70 ''Boston'' = Inl (KeyError ''Boston'') \<and>
   \<not> spec_raises_named ''UnknownCityError'' (get_mock_weather ''Boston'' 1 0) \<and>
   \<not> spec_raises_named ''UnknownComfortLevelError'' (adjust_for_comfort 70 ''Boston'') \<and>
   \<not> spec_raises_named ''UnknownStyleError'' (generate_outfit 70 ''Boston'')"
proof -
  have c: "''Boston'' \<notin> set cities" by (simp add: cities_def)
  have l: "''Boston'' \<notin> set comfort_levels" by (simp add: comfort_levels_def)
  have s: "''Boston'' \<notin> set styles" by (simp add: styles_def)
  have w: "get_mock_weather ''Boston'' 1 0 = Inl (KeyError ''Boston'')"
    by (simp add: get_mock_weather_def subscript_def base_unknown[OF c])
  have a: "adjust_for_comfort 70 ''Boston'' = Inl (KeyError ''Boston'')"
    by (simp add: adjust_for_comfort_def subscript_def adjustments_unknown[OF l])
  have g: "generate_outfit 70 ''Boston'' = Inl (KeyError ''Boston'')"
    by (simp add: generate_outfit_def subscript_def bottoms_unknown[OF s])
  show ?thesis by (simp add: w a g spec_raises_named_def)
qed

text \<open>
  C5, amended: a key outside its table makes the function raise the built-in
  \<^verbatim>\<open>KeyError\<close> carrying that key, and that is all it does; no value is returned. A city
  outside the four-city list makes \<open>get_mock_weather\<close> raise it whatever the random
  source would draw, a comfort level outside the five-label list makes
  \<open>adjust_for_comfort\<close> raise it, and a style outside the four-style list makes
  \<open>generate_outfit\<close> raise it. The three failures share the one exception class.
\<close>

theorem unknown_key_raises:
  "(city \<notin> set cities \<longrightarrow> get_mock_weather city p k = Inl (KeyError city)) \<and>
   (comfort \<notin> set comfort_levels \<longrightarrow> adjust_for_comfort t comfort = Inl (KeyError comfort)) \<and>
   (style \<notin> set styles \<longrightarrow> generate_outfit t style = Inl (KeyError style))"
  by (simp add: get_mock_weather_def adjust_for_comfort_def generate_outfit_def subscript_def
      base_unknown adjustments_unknown bottoms_unknown split: prod.split)

theorem unknown_key_raises_witness:
  "''Boston'' \<notin> set cities \<and> get_mock_weather ''Boston'' 1 0 = Inl (KeyError ''Boston'') \<and>
   ''I am chilly'' \<notin> set comfort_levels \<and>
   adjust_for_comfort 70 ''I am chilly'' = Inl (KeyError ''I am chilly'') \<and>
   ''Grunge'' \<notin> set styles \<and> generate_outfit 70 ''Grunge'' = Inl (KeyError ''Grunge'')"
  using unknown_key_raises[of "''Boston''" 1 0 "''I am chilly''" 70 "''Grunge''"]
  by (simp add: cities_def comfort_levels_def styles_def)

section \<open>The comfort adjuster\<close>

text \<open>
  C6: for every integer \<open>t\<close>, \<open>adjust_for_comfort\<close> returns \<open>t\<close> plus the offset of the
  comfort level: +6, +3, 0, -3, -6 for "I am a furnace", "I run warm", "I am normal",
  "I run cold", "I am freezing all the time", in the order of the radio widget.
\<close>

theorem adjust_for_comfort_offsets:
  "map (adjust_for_comfort t) comfort_levels =
     [Inr (t + 6), Inr (t + 3), Inr t, Inr (t - 3), Inr (t - 6)] \<and>
   adjust_for_comfort t ''I am a furnace'' = Inr (t + 6) \<and>
   adjust_for_comfort t ''I run warm'' = Inr (t + 3) \<and>
   adjust_for_comfort t ''I am normal'' = Inr t \<and>
   adjust_for_comfort t ''I run cold'' = Inr (t - 3) \<and>
   adjust_for_comfort t ''I am freezing all the time'' = Inr (t - 6)"
  by (simp add: adjust_for_comfort_def subscript_def adjustments_def comfort_levels_def)

text \<open>
  C7: \<open>adjust_for_comfort\<close> is linear in the temperature: for every comfort level of
  the list and all integers \<open>t\<close> and \<open>k\<close>, both calls return, and the result at \<open>t + k\<close>
  is the result at \<open>t\<close> plus \<open>k\<close>.
\<close>

theorem adjust_for_comfort_linear:
  assumes "c \<in> set comfort_levels"
  shows "\<exists>a. adjust_for_comfort t c = Inr a \<and> adjust_for_comfort (t + k) c = Inr (a + k)"
  using assms
  by (auto simp: adjust_for_comfort_def subscript_def adjustments_def comfort_levels_def)

theorem adjust_for_comfort_linear_witness:
  "''I run cold'' \<in> set comfort_levels \<and> adjust_for_comfort 70 ''I run cold'' = Inr 67 \<and>
   adjust_for_comfort (70 + 5) ''I run cold'' = Inr (67 + 5)"
  using adjust_for_comfort_linear[of "''I run cold''" 70 5]
  by (simp add: comfort_levels_def adjust_for_comfort_def subscript_def adjustments_def)

section \<open>The outfit recommender\<close>

lemma generate_outfit_known:
  "bottoms style = Some b \<Longrightarrow>
   generate_outfit t style =
     Inr (if 80 \<le> t then ''light tank or breathable tee''
          else if 70 \<le> t then ''short-sleeve shirt''
          else if 60 \<le> t then ''long-sleeve top'' else ''warm sweater'',
          if 80 \<le> t then ''no jacket needed''
          else if 70 \<le> t then ''optional light layer''
          else if 60 \<le> t then ''light jacket or cardigan'' else ''jacket or coat'',
          b)"
  by (simp add: generate_outfit_def subscript_def)

lemma bottoms_known: "style \<in> set styles \<Longrightarrow> \<exists>b. bottoms style = Some b"
  by (auto simp: styles_def bottoms_table)

text \<open>
  C1: for every integer \<open>t\<close> and every style of the four-style list, \<open>generate_outfit\<close>
  returns, and picks top and outer layer by four bands: \<open>t \<ge> 80\<close>, \<open>70 \<le> t < 80\<close>,
  \<open>60 \<le> t < 70\<close>, \<open>t < 60\<close>. The boundaries belong to the band above them: 80, 70 and
  60 themselves select the band that starts there.
\<close>

theorem generate_outfit_bands:
  assumes "style \<in> set styles"
  shows "\<exists>bottom. bottoms style = Some bottom \<and>
     (80 \<le> t \<longrightarrow> generate_outfit t style =
         Inr (''light tank or breathable tee'', ''no jacket needed'', bottom)) \<and>
     (70 \<le> t \<and> t < 80 \<longrightarrow> generate_outfit t style =
         Inr (''short-sleeve shirt'', ''optional light layer'', bottom)) \<and>
     (60 \<le> t \<and> t < 70 \<longrightarrow> generate_outfit t style =
         Inr (''long-sleeve top'', ''light jacket or cardigan'', bottom)) \<and>
     (t < 60 \<longrightarrow> generate_outfit t style =
         Inr (''warm sweater'', ''jacket or coat'', bottom)) \<and>
     generate_outfit 80 style =
         Inr (''light tank or breathable tee'', ''no jacket needed'', bottom) \<and>
     generate_outfit 70 style =
         Inr (''short-sleeve shirt'', ''optional light layer'', bottom) \<and>
     generate_outfit 60 style =
         Inr (''long-sleeve top'', ''light jacket or cardigan'', bottom)"
proof -
  from bottoms_known[OF assms] obtain b where b: "bottoms style = Some b" ..
  show ?thesis
    by (rule exI[of _ b]) (simp add: b generate_outfit_known[OF b])
qed

theorem generate_outfit_bands_witness:
  "''Sporty'' \<in> set styles \<and>
   generate_outfit 79 ''Sporty'' =
     Inr (''short-sleeve shirt'', ''optional light layer'', ''athletic bottoms'') \<and>
   generate_outfit 80 ''Sporty'' =
     Inr (''light tank or breathable tee'', ''no jacket needed'', ''athletic bottoms'') \<and>
   generate_outfit 70 ''Sporty'' =
     Inr (''short-sleeve shirt'', ''optional light layer'', ''athletic bottoms'') \<and>
   generate_outfit 60 ''Sporty'' =
     Inr (''long-sleeve top'', ''light jacket or cardigan'', ''athletic bottoms'')"
  using generate_outfit_bands[of "''Sporty''" 79]
  by (simp add: styles_def bottoms_table)

text \<open>
  C8: the bottom returned by \<open>generate_outfit\<close> depends on the style only: for a style
  of the four-style list and any two temperatures, both calls return and their bottoms
  are equal.
\<close>

theorem generate_outfit_bottom_by_style:
  assumes "style \<in> set styles"
  shows "\<exists>top1 outer1 top2 outer2 bottom.
           generate_outfit t1 style = Inr (top1, outer1, bottom) \<and>
           generate_outfit t2 style = Inr (top2, outer2, bottom)"
proof -
  from bottoms_known[OF assms] obtain b where b: "bottoms style = Some b" ..
  show ?thesis
    using generate_outfit_known[OF b, of t1] generate_outfit_known[OF b, of t2] by blast
qed

theorem generate_outfit_bottom_by_style_witness:
  "''Dressy'' \<in> set styles \<and>
   generate_outfit 85 ''Dressy'' =
     Inr (''light tank or breathable tee'', ''no jacket needed'', ''tailored pants or skirt'') \<and>
   generate_outfit 75 ''Dressy'' =
     Inr (''short-sleeve shirt'', ''optional light layer'', ''tailored pants or skirt'') \<and>
   generate_outfit 65 ''Dressy'' =
     Inr (''long-sleeve top'', ''light jacket or cardigan'', ''tailored pants or skirt'') \<and>
   generate_outfit 50 ''Dressy'' =
     Inr (''warm sweater'', ''jacket or coat'', ''tailored pants or skirt'')"
  using generate_outfit_bottom_by_style[of "''Dressy''" 85 50]
    generate_outfit_bottom_by_style[of "''Dressy''" 75 65]
  by (simp add: styles_def generate_outfit_known[OF bottoms_table(3)])

section \<open>The shoe recommender\<close>

text \<open>
  C2: for every integer \<open>t\<close> and every rain chance among Low, Medium, High, the first
  matching rule decides: High gives "water-resistant shoes" whatever the temperature;
  otherwise \<open>t \<ge> 75\<close> gives "sandals or breathable sneakers", \<open>60 \<le> t < 75\<close> gives
  "sneakers or flats", and anything colder gives "closed-toe shoes or boots".
\<close>

theorem shoe_suggestion_priority:
  assumes "rain \<in> set rain_levels"
  shows "(rain = ''High'' \<longrightarrow> shoe_suggestion t rain = ''water-resistant shoes'') \<and>
     (rain \<noteq> ''High'' \<and> 75 \<le> t \<longrightarrow>
        shoe_suggestion t rain = ''sandals or breathable sneakers'') \<and>
     (rain \<noteq> ''High'' \<and> 60 \<le> t \<and> t < 75 \<longrightarrow> shoe_suggestion t rain = ''sneakers or flats'') \<and>
     (rain \<noteq> ''High'' \<and> t < 60 \<longrightarrow> shoe_suggestion t rain = ''closed-toe shoes or boots'')"
  by (simp add: shoe_suggestion_def)

theorem shoe_suggestion_priority_witness:
  "''High'' \<in> set rain_levels \<and> shoe_suggestion 90 ''High'' = ''water-resistant shoes'' \<and>
   ''Medium'' \<in> set rain_levels \<and> shoe_suggestion 74 ''Medium'' = ''sneakers or flats''"
  using shoe_suggestion_priority[of "''High''" 90] shoe_suggestion_priority[of "''Medium''" 74]
  by (simp add: rain_levels_def)

text \<open>
  C10: \<open>shoe_suggestion\<close> reads no table and compares the rain value with "High" only,
  so it returns for every rain string: any string other than "High", also one outside
  Low, Medium, High, is treated as Low and Medium are and gets the shoes of the
  temperature.
\<close>

theorem shoe_suggestion_total_over_rain:
  assumes "rain \<noteq> ''High''"
  shows "shoe_suggestion t rain = shoe_suggestion t ''Low'' \<and>
         shoe_suggestion t rain = shoe_suggestion t ''Medium'' \<and>
         shoe_suggestion t rain =
           (if 75 \<le> t then ''sandals or breathable sneakers''
            else if 60 \<le> t then ''sneakers or flats''
            else ''closed-toe shoes or boots'')"
  using assms by (simp add: shoe_suggestion_def)

theorem shoe_suggestion_total_over_rain_witness:
  "''Stormy'' \<noteq> ''High'' \<and>
   shoe_suggestion 80 ''Stormy'' = shoe_suggestion 80 ''Low'' \<and>
   shoe_suggestion 80 ''Stormy'' = shoe_suggestion 80 ''Medium'' \<and>
   shoe_suggestion 80 ''Stormy'' = ''sandals or breathable sneakers''"
proof -
  have a: "''Stormy'' \<noteq> ''High''" by simp
  from shoe_suggestion_total_over_rain[OF a, of 80, simplified] a show ?thesis by blast
qed

section \<open>End to end\<close>

text \<open>
  C9: Chicago, "I am freezing all the time", perturbation 0: \<open>get_mock_weather\<close> yields
  low 55, high 68 and feels-like 61; \<open>adjust_for_comfort\<close> yields 55; \<open>generate_outfit\<close>
  yields "warm sweater" and "jacket or coat", and "jeans" for the style Casual; the
  call chain of the planner page returns exactly these.
\<close>

theorem chicago_freezing_casual_scenario:
  "get_mock_weather ''Chicago'' 0 k =
     Inr \<lparr>low = 55, high = 68, feels_like = 61,
          rain_chance = np_random_choice rain_levels k\<rparr> \<and>
   adjust_for_comfort 61 ''I am freezing all the time'' = Inr 55 \<and>
   generate_outfit 55 ''Casual'' = Inr (''warm sweater'', ''jacket or coat'', ''jeans'') \<and>
   outfit_planner ''Chicago'' ''I am freezing all the time'' ''Casual'' False 0 k =
     Inr (\<lparr>low = 55, high = 68, feels_like = 61,
           rain_chance = np_random_choice rain_levels k\<rparr>,
          55, (''warm sweater'', ''jacket or coat'', ''jeans''), None)"
proof -
  have w: "get_mock_weather ''Chicago'' 0 k =
     Inr \<lparr>low = 55, high = 68, feels_like = 61,
          rain_chance = np_random_choice rain_levels k\<rparr>"
    by (simp add: get_mock_weather_known[OF base_table(3)])
  have a: "adjust_for_comfort 61 ''I am freezing all the time'' = Inr 55"
    by (simp add: adjust_for_comfort_def subscript_def adjustments_def)
  have g: "generate_outfit 55 ''Casual'' = Inr (''warm sweater'', ''jacket or coat'', ''jeans'')"
    by (simp add: generate_outfit_known[OF bottoms_table(2)])
  show ?thesis by (simp add: outfit_planner_def w a g)
qed

end
